theory Spec2Isabelle
  imports Main
begin

section \<open>The airdrop CSV generator\<close>

text \<open>
  The script \<^verbatim>\<open>script/generate_airdrop_csv.py\<close> holds a list \<^verbatim>\<open>airdrop_data\<close> of
  (address, token amount) pairs, converts each amount to base units with
  \<^verbatim>\<open>tokens_to_wei\<close>, writes the rows to \<^verbatim>\<open>airdrop_distribution.csv\<close> and prints three
  summary lines. The functions of the script are embedded below as HOL functions of the
  same names; the recipient list, a global of the script, is their argument.

  Python is dynamically typed: an amount is an \<^verbatim>\<open>int\<close> (unbounded) or a \<^verbatim>\<open>float\<close>
  (an IEEE 754 binary64 number), and \<^verbatim>\<open>*\<close>, \<^verbatim>\<open>+\<close> and \<^verbatim>\<open>int()\<close> act on both.
\<close>

subsection \<open>Python numbers\<close>

text \<open>
  A finite float \<open>Finite s m e\<close> has the value \<open>(-1)\<^sup>s * m * 2\<^sup>e\<close>. Every result of an
  operation is in canonical form: \<open>m < 2\<^sup>5\<^sup>3\<close>, \<open>e \<ge> -1074\<close>, and \<open>m \<ge> 2\<^sup>5\<^sup>2\<close> unless
  \<open>e = -1074\<close> (zero and the subnormal numbers).
\<close>

datatype float64 = Finite bool int int | Infinity bool | NaN

datatype pyval = PyInt int | PyFloat float64

datatype error = OverflowError | ValueError

text \<open>\<open>bit_length n acc\<close> is \<open>acc\<close> plus the number of binary digits of \<open>n\<close>.\<close>

function bit_length :: "int \<Rightarrow> int \<Rightarrow> int" where
  "bit_length n acc = (if n \<le> 0 then acc else bit_length (n div 2) (acc + 1))"
  by pat_completeness auto
termination
  by (relation "measure (\<lambda>(n, acc). nat n)") auto

declare bit_length.simps [simp del]

text \<open>\<open>floor_log2 n d\<close> is the integer part of the binary logarithm of \<open>n / d\<close>.\<close>

definition floor_log2 :: "int \<Rightarrow> int \<Rightarrow> int" where
  "floor_log2 n d =
     (let k = bit_length n 0 - bit_length d 0
      in if (if 0 \<le> k then d * 2 ^ nat k \<le> n else d \<le> n * 2 ^ nat (- k))
         then k else k - 1)"

text \<open>
  Rounding of the non-negative rational \<open>n / d\<close> to the nearest binary64 number, ties to
  the even significand, overflow to infinity: the rounding of every float operation, of
  the conversion of an int and of the reading of a decimal literal.
\<close>

definition round_float64 :: "bool \<Rightarrow> int \<Rightarrow> int \<Rightarrow> float64" where
  "round_float64 s n d =
     (if n = 0 then Finite s 0 (- 1074)
      else
        let e = max (floor_log2 n d - 52) (- 1074);
            N = (if 0 \<le> e then n else n * 2 ^ nat (- e));
            D = (if 0 \<le> e then d * 2 ^ nat e else d);
            q = N div D;
            r = N mod D;
            m = (if D < 2 * r \<or> (2 * r = D \<and> odd q) then q + 1 else q);
            m' = (if m = 2 ^ 53 then 2 ^ 52 else m);
            e' = (if m = 2 ^ 53 then e + 1 else e)
        in if 971 < e' then Infinity s else Finite s m' e')"

definition round_dyadic :: "bool \<Rightarrow> int \<Rightarrow> int \<Rightarrow> float64" where
  "round_dyadic s m e =
     (if 0 \<le> e then round_float64 s (m * 2 ^ nat e) 1
      else round_float64 s m (2 ^ nat (- e)))"

text \<open>The float that a decimal literal of value \<open>n / d\<close> denotes, as \<^verbatim>\<open>1.1\<close> is \<open>11 / 10\<close>.\<close>

definition float_literal :: "int \<Rightarrow> int \<Rightarrow> float64" where
  "float_literal n d = round_float64 False n d"

fun float_mul :: "float64 \<Rightarrow> float64 \<Rightarrow> float64" where
  "float_mul NaN y = NaN"
| "float_mul x NaN = NaN"
| "float_mul (Infinity s) (Infinity t) = Infinity (s \<noteq> t)"
| "float_mul (Infinity s) (Finite t m e) = (if m = 0 then NaN else Infinity (s \<noteq> t))"
| "float_mul (Finite s m e) (Infinity t) = (if m = 0 then NaN else Infinity (s \<noteq> t))"
| "float_mul (Finite s m e) (Finite t n f) = round_dyadic (s \<noteq> t) (m * n) (e + f)"

fun float_add :: "float64 \<Rightarrow> float64 \<Rightarrow> float64" where
  "float_add NaN y = NaN"
| "float_add x NaN = NaN"
| "float_add (Infinity s) (Infinity t) = (if s = t then Infinity s else NaN)"
| "float_add (Infinity s) (Finite t m e) = Infinity s"
| "float_add (Finite s m e) (Infinity t) = Infinity t"
| "float_add (Finite s m e) (Finite t n f) =
     (let g = min e f;
          a = (if s then - m else m) * 2 ^ nat (e - g);
          b = (if t then - n else n) * 2 ^ nat (f - g);
          c = a + b
      in if c = 0 then Finite (s \<and> t) 0 (- 1074)
         else round_dyadic (c < 0) \<bar>c\<bar> g)"

text \<open>
  An int operand of a float operation is converted first; an int beyond the range of
  binary64 raises \<^verbatim>\<open>OverflowError\<close>.
\<close>

definition float_of_int :: "int \<Rightarrow> error + float64" where
  "float_of_int n =
     (case round_float64 (n < 0) \<bar>n\<bar> 1 of
        Infinity s \<Rightarrow> Inl OverflowError
      | x \<Rightarrow> Inr x)"

text \<open>\<^verbatim>\<open>int(x)\<close> truncates towards zero and raises on an infinity or a NaN.\<close>

fun int_of_float :: "float64 \<Rightarrow> error + int" where
  "int_of_float NaN = Inl ValueError"
| "int_of_float (Infinity s) = Inl OverflowError"
| "int_of_float (Finite s m e) =
     (let t = (if 0 \<le> e then m * 2 ^ nat e else m div 2 ^ nat (- e))
      in Inr (if s then - t else t))"

fun py_mul :: "pyval \<Rightarrow> pyval \<Rightarrow> error + pyval" where
  "py_mul (PyInt a) (PyInt b) = Inr (PyInt (a * b))"
| "py_mul (PyFloat x) (PyInt b) =
     (case float_of_int b of Inl err \<Rightarrow> Inl err | Inr y \<Rightarrow> Inr (PyFloat (float_mul x y)))"
| "py_mul (PyInt a) (PyFloat y) =
     (case float_of_int a of Inl err \<Rightarrow> Inl err | Inr x \<Rightarrow> Inr (PyFloat (float_mul x y)))"
| "py_mul (PyFloat x) (PyFloat y) = Inr (PyFloat (float_mul x y))"

fun py_add :: "pyval \<Rightarrow> pyval \<Rightarrow> error + pyval" where
  "py_add (PyInt a) (PyInt b) = Inr (PyInt (a + b))"
| "py_add (PyFloat x) (PyInt b) =
     (case float_of_int b of Inl err \<Rightarrow> Inl err | Inr y \<Rightarrow> Inr (PyFloat (float_add x y)))"
| "py_add (PyInt a) (PyFloat y) =
     (case float_of_int a of Inl err \<Rightarrow> Inl err | Inr x \<Rightarrow> Inr (PyFloat (float_add x y)))"
| "py_add (PyFloat x) (PyFloat y) = Inr (PyFloat (float_add x y))"

fun py_int :: "pyval \<Rightarrow> error + int" where
  "py_int (PyInt n) = Inr n"
| "py_int (PyFloat x) = int_of_float x"

text \<open>
  \<^verbatim>\<open>sum(iterable)\<close> adds the items to the int 0 from left to right. (CPython from 3.12 on
  carries a correction term through a run of float additions; the two agree on every list
  that holds at most one float, and nothing below evaluates \<open>py_sum\<close> on another list
  with floats.)
\<close>

fun py_sum_from :: "pyval \<Rightarrow> pyval list \<Rightarrow> error + pyval" where
  "py_sum_from acc [] = Inr acc"
| "py_sum_from acc (v # vs) =
     (case py_add acc v of Inl err \<Rightarrow> Inl err | Inr acc' \<Rightarrow> py_sum_from acc' vs)"

definition py_sum :: "pyval list \<Rightarrow> error + pyval" where
  "py_sum vs = py_sum_from (PyInt 0) vs"

subsection \<open>Numbers as text\<close>

definition digit_char :: "int \<Rightarrow> char" where
  "digit_char d =
     (if d = 0 then CHR ''0'' else if d = 1 then CHR ''1'' else if d = 2 then CHR ''2''
      else if d = 3 then CHR ''3'' else if d = 4 then CHR ''4'' else if d = 5 then CHR ''5''
      else if d = 6 then CHR ''6'' else if d = 7 then CHR ''7'' else if d = 8 then CHR ''8''
      else CHR ''9'')"

function digits10 :: "int \<Rightarrow> string" where
  "digits10 n = (if n < 10 then [digit_char n] else digits10 (n div 10) @ [digit_char (n mod 10)])"
  by pat_completeness auto
termination
  by (relation "measure nat") auto

declare digits10.simps [simp del]

text \<open>\<^verbatim>\<open>str(n)\<close>, which is also what \<^verbatim>\<open>f"{n}"\<close> and the csv writer make of an int.\<close>

definition str_int :: "int \<Rightarrow> string" where
  "str_int n = (if n < 0 then CHR ''-'' # digits10 (- n) else digits10 n)"

text \<open>The format specification \<^verbatim>\<open>,\<close> groups the integer digits in threes from the right.\<close>

fun group3 :: "string \<Rightarrow> string" where
  "group3 (a # b # c # d # rest) = a # b # c # CHR '','' # group3 (d # rest)"
| "group3 ds = ds"

definition grouped :: "string \<Rightarrow> string" where
  "grouped ds = rev (group3 (rev ds))"

definition format_int_grouped :: "int \<Rightarrow> string" where
  "format_int_grouped n =
     (if n < 0 then CHR ''-'' # grouped (digits10 (- n)) else grouped (digits10 n))"

text \<open>
  A float is printed with the fewest significant digits that read back as the same float
  (of these, the nearest), in fixed notation when the decimal point falls within
  \<open>-3 .. 16\<close> digits and in exponent notation otherwise. \<open>decimal_point n d\<close> is the
  position \<open>p\<close> of the decimal point of \<open>n / d\<close>: \<open>10\<^sup>p\<^sup>-\<^sup>1 \<le> n / d < 10\<^sup>p\<close>.
\<close>

definition decimal_point :: "int \<Rightarrow> int \<Rightarrow> int" where
  "decimal_point n d =
     (let k = int (length (digits10 n)) - int (length (digits10 d))
      in if (if 0 \<le> k then d * 10 ^ nat k \<le> n else d \<le> n * 10 ^ nat (- k))
         then k + 1 else k)"

definition reads_back :: "float64 \<Rightarrow> int \<Rightarrow> int \<Rightarrow> bool" where
  "reads_back x c k =
     ((if 0 \<le> k then round_float64 False c (10 ^ nat k)
       else round_float64 False (c * 10 ^ nat (- k)) 1) = x)"

text \<open>
  The two integers next to \<open>n / d * 10\<^sup>s\<close>, the nearer one first (of two equally
  near ones the even one).
\<close>

definition candidates :: "int \<Rightarrow> int \<Rightarrow> int \<Rightarrow> int \<times> int" where
  "candidates n d s =
     (let ny = (if 0 \<le> s then n * 10 ^ nat s else n);
          dy = (if 0 \<le> s then d else d * 10 ^ nat (- s));
          lo = ny div dy;
          r = ny mod dy
      in if 2 * r < dy \<or> (2 * r = dy \<and> even lo) then (lo, lo + 1) else (lo + 1, lo))"

text \<open>
  The search for the shortest digit string, from \<open>k\<close> significant digits on; 17 digits
  identify every float.
\<close>

function shortest_digits :: "float64 \<Rightarrow> int \<Rightarrow> int \<Rightarrow> int \<Rightarrow> nat \<Rightarrow> int \<times> nat" where
  "shortest_digits x n d p k =
     (if 17 \<le> k then (fst (candidates n d (int k - p)), k)
      else if reads_back x (fst (candidates n d (int k - p))) (int k - p)
        then (fst (candidates n d (int k - p)), k)
      else if reads_back x (snd (candidates n d (int k - p))) (int k - p)
        then (snd (candidates n d (int k - p)), k)
      else shortest_digits x n d p (Suc k))"
  by pat_completeness auto
termination
  by (relation "measure (\<lambda>(x, n, d, p, k). 17 - k)") auto

declare shortest_digits.simps [simp del]

definition strip_zeros :: "string \<Rightarrow> string" where
  "strip_zeros ds = rev (dropWhile (\<lambda>c. c = CHR ''0'') (rev ds))"

definition exponent_text :: "int \<Rightarrow> string" where
  "exponent_text k =
     (if k < 0 then ''-'' else ''+'') @ (if \<bar>k\<bar> < 10 then ''0'' else '''') @ digits10 \<bar>k\<bar>"

definition float_parts :: "string \<Rightarrow> int \<Rightarrow> string \<times> string" where
  "float_parts ds dp =
     (if dp \<le> - 4 \<or> 16 < dp then
        (take 1 ds,
         (if 1 < length ds then ''.'' @ drop 1 ds else '''') @ ''e'' @ exponent_text (dp - 1))
      else if dp \<le> 0 then (''0'', ''.'' @ replicate (nat (- dp)) (CHR ''0'') @ ds)
      else if nat dp < length ds then (take (nat dp) ds, ''.'' @ drop (nat dp) ds)
      else (ds @ replicate (nat dp - length ds) (CHR ''0''), ''.0''))"

fun format_float_grouped :: "float64 \<Rightarrow> string" where
  "format_float_grouped NaN = ''nan''"
| "format_float_grouped (Infinity s) = (if s then ''-inf'' else ''inf'')"
| "format_float_grouped (Finite s m e) =
     (if m = 0 then (if s then ''-0.0'' else ''0.0'')
      else
        let x = round_dyadic False m e;
            n = (if 0 \<le> e then m * 2 ^ nat e else m);
            d = (if 0 \<le> e then 1 else 2 ^ nat (- e));
            p = decimal_point n d;
            (c, k) = shortest_digits x n d p 1;
            ds = digits10 c;
            (ip, rest) = float_parts (strip_zeros ds) (p + int (length ds) - int k)
        in (if s then ''-'' else '''') @ grouped ip @ rest)"

declare format_float_grouped.simps [simp del]

text \<open>\<^verbatim>\<open>f"{v:,}"\<close>\<close>

fun format_grouped :: "pyval \<Rightarrow> string" where
  "format_grouped (PyInt n) = format_int_grouped n"
| "format_grouped (PyFloat x) = format_float_grouped x"

subsection \<open>The csv writer\<close>

text \<open>
  \<^verbatim>\<open>csv.writer(csvfile)\<close> writes in the \<^verbatim>\<open>excel\<close> dialect: fields joined by commas, a
  field that holds a comma, a double quote, a carriage return or a line feed enclosed in
  double quotes with its double quotes doubled, and every row ended by CR LF. The file is
  opened with \<^verbatim>\<open>newline=''\<close>, so the text reaches the file as written.
\<close>

abbreviation CR :: char where
  "CR \<equiv> CHR 0x0D"

abbreviation LF :: char where
  "LF \<equiv> CHR 0x0A"

abbreviation quotechar :: char where
  "quotechar \<equiv> CHR 0x22"

definition lineterminator :: string where
  "lineterminator = [CR, LF]"

definition special_char :: "char \<Rightarrow> bool" where
  "special_char c = (c = CHR '','' \<or> c = quotechar \<or> c = CR \<or> c = LF)"

definition needs_quoting :: "string \<Rightarrow> bool" where
  "needs_quoting s = list_ex special_char s"

fun double_quotes :: "string \<Rightarrow> string" where
  "double_quotes [] = []"
| "double_quotes (c # cs) = (if c = quotechar then [c, c] else [c]) @ double_quotes cs"

definition csv_field :: "string \<Rightarrow> string" where
  "csv_field s = (if needs_quoting s then quotechar # double_quotes s @ [quotechar] else s)"

datatype cell = Str string | Num int

fun cell_text :: "cell \<Rightarrow> string" where
  "cell_text (Str s) = s"
| "cell_text (Num n) = str_int n"

fun join_fields :: "string list \<Rightarrow> string" where
  "join_fields [] = []"
| "join_fields [f] = f"
| "join_fields (f # g # fs) = f @ '','' @ join_fields (g # fs)"

text \<open>A row of one empty field is written as a pair of double quotes.\<close>

definition writerow :: "cell list \<Rightarrow> string" where
  "writerow cells =
     (let fields = map (\<lambda>c. csv_field (cell_text c)) cells
      in (if fields = [[]] then [quotechar, quotechar] else join_fields fields) @ lineterminator)"

subsection \<open>The script\<close>

definition tokens_to_wei :: "pyval \<Rightarrow> nat \<Rightarrow> error + int" where
  "tokens_to_wei amount decimals =
     (case py_mul amount (PyInt (10 ^ decimals)) of
        Inl err \<Rightarrow> Inl err
      | Inr product \<Rightarrow> py_int product)"

text \<open>The default of the parameter \<^verbatim>\<open>decimals\<close>, which every call in the script takes.\<close>

definition default_decimals :: nat where
  "default_decimals = 18"

text \<open>The \<^verbatim>\<open>airdrop_data\<close> of the script.\<close>

definition airdrop_data :: "(string \<times> pyval) list" where
  "airdrop_data =
     [(''0x742e8D0aED6e21E2F8daBF7c8D9b3D96aF61f5a4'', PyInt 1000),
      (''0x1234567890123456789012345678901234567890'', PyInt 500),
      (''0xabcdefabcdefabcdefabcdefabcdefabcdefabcd'', PyInt 750),
      (''0x9876543210987654321098765432109876543210'', PyInt 250),
      (''0xfedcba0987654321fedcba0987654321fedcba09'', PyInt 300)]"

text \<open>
  The file system maps a path to the text of the file. Opening a file in mode \<^verbatim>\<open>'w'\<close>
  gives an empty file; the rows are appended to it; when the \<^verbatim>\<open>with\<close> block is left,
  by its end or by an exception, the file holds what was written. Opening and writing
  are taken to succeed.
\<close>

type_synonym filesystem = "string \<Rightarrow> string option"

definition output_path :: string where
  "output_path = ''airdrop_distribution.csv''"

text \<open>
  The \<^verbatim>\<open>for\<close> loop over the recipients: \<open>csvfile\<close> is the text written so far. A
  conversion that raises ends the loop with the rows written before it.
\<close>

fun write_data :: "(string \<times> pyval) list \<Rightarrow> string \<Rightarrow> string \<times> error option" where
  "write_data [] csvfile = (csvfile, None)"
| "write_data ((address, token_amount) # rest) csvfile =
     (case tokens_to_wei token_amount default_decimals of
        Inl err \<Rightarrow> (csvfile, Some err)
      | Inr wei_amount \<Rightarrow>
          write_data rest (csvfile @ writerow [Str address, Num wei_amount]))"

text \<open>
  What a run leaves behind: the file system, the lines printed, and the exception that
  ended the run, if any.
\<close>

record outcome =
  files :: filesystem
  printed :: "string list"
  raised :: "error option"

definition generate_csv :: "(string \<times> pyval) list \<Rightarrow> filesystem \<Rightarrow> outcome" where
  "generate_csv recipients fs =
     (let header = writerow [Str ''address'', Str ''amount''];
          (csvfile, failure) = write_data recipients header;
          fs' = fs(output_path \<mapsto> csvfile);
          line1 = ''Generated airdrop_distribution.csv with ''
                  @ str_int (int (length recipients)) @ '' recipients''
      in case failure of
           Some err \<Rightarrow> \<lparr>files = fs', printed = [], raised = Some err\<rparr>
         | None \<Rightarrow>
             (case py_sum (map snd recipients) of
                Inl err \<Rightarrow> \<lparr>files = fs', printed = [line1], raised = Some err\<rparr>
              | Inr total_tokens \<Rightarrow>
                  (case tokens_to_wei total_tokens default_decimals of
                     Inl err \<Rightarrow> \<lparr>files = fs', printed = [line1], raised = Some err\<rparr>
                   | Inr total_wei \<Rightarrow>
                       \<lparr>files = fs',
                        printed =
                          [line1,
                           ''Total tokens to distribute: '' @ format_grouped total_tokens
                           @ '' AIV'',
                           ''Total wei amount: '' @ str_int total_wei],
                        raised = None\<rparr>)))"

subsection \<open>Notions in which the properties are stated\<close>

text \<open>
  The lines of a text as a reader sees them: a line ends at CR LF, at a CR or at an LF.
  \<open>after_cr\<close> records that the last character read was a CR.
\<close>

fun lines_from :: "bool \<Rightarrow> string \<Rightarrow> string \<Rightarrow> string list" where
  "lines_from after_cr cur [] = (if cur = [] then [] else [cur])"
| "lines_from after_cr cur (c # cs) =
     (if c = LF then
        (if after_cr then lines_from False [] cs else cur # lines_from False [] cs)
      else if c = CR then cur # lines_from True [] cs
      else lines_from False (cur @ [c]) cs)"

definition file_lines :: "string \<Rightarrow> string list" where
  "file_lines text = lines_from False [] text"

text \<open>The text of the output file after a run.\<close>

definition csv_text :: "outcome \<Rightarrow> string" where
  "csv_text r = (case files r output_path of None \<Rightarrow> [] | Some text \<Rightarrow> text)"

text \<open>A recipient list whose amounts are ints.\<close>

definition int_amounts :: "(string \<times> int) list \<Rightarrow> (string \<times> pyval) list" where
  "int_amounts xs = map (\<lambda>(address, n). (address, PyInt n)) xs"

text \<open>
  Whether the conversion of a recipient's amount returns, and the row written for the
  recipient when it does.
\<close>

definition converts :: "string \<times> pyval \<Rightarrow> bool" where
  "converts rcpt = (case tokens_to_wei (snd rcpt) default_decimals of Inl err \<Rightarrow> False | Inr w \<Rightarrow> True)"

definition data_row :: "string \<times> pyval \<Rightarrow> string" where
  "data_row rcpt =
     (case tokens_to_wei (snd rcpt) default_decimals of
        Inl err \<Rightarrow> []
      | Inr w \<Rightarrow> writerow [Str (fst rcpt), Num w])"

section \<open>Properties\<close>

text \<open>
  C1. For an int amount \<open>a\<close> and decimals \<open>d\<close>, \<open>tokens_to_wei\<close> returns exactly
  \<open>a * 10\<^sup>d\<close> (for every int \<open>a\<close>, so in particular for the non-negative ones).
\<close>

theorem tokens_to_wei_exact: "tokens_to_wei (PyInt a) d = Inr (a * 10 ^ d)"
  by (simp add: tokens_to_wei_def)

end
